theory Spec2Isabelle
  imports Complex_Main "HOL-Library.Word"
begin

section \<open>The custom-features module of Senior News Daily\<close>

text \<open>
  A shallow embedding of \<^verbatim>\<open>src/site/custom-features.js\<close>: the class
  \<^verbatim>\<open>SeniorNewsCustomizer\<close> with its two collections, the browser storage it
  persists them to, and the part of the page it writes to (count badges, the add-feed form,
  notices shown with \<^verbatim>\<open>alert\<close>).
\<close>

subsection \<open>Strings\<close>

text \<open>
  A JavaScript string is a sequence of 16-bit code units. \<open>js\<close> embeds an ASCII literal.
\<close>

type_synonym jsstring = "16 word list"

definition js :: "string \<Rightarrow> jsstring" where
  "js s = map of_char s"

text \<open>
  \<^verbatim>\<open>String.prototype.trim\<close> removes the code units of the ECMAScript productions
  WhiteSpace and LineTerminator from both ends.
\<close>

definition isWhiteSpace :: "16 word \<Rightarrow> bool" where
  "isWhiteSpace c \<longleftrightarrow>
     c = 0x09 \<or> c = 0x0A \<or> c = 0x0B \<or> c = 0x0C \<or> c = 0x0D \<or> c = 0x20 \<or> c = 0xA0 \<or>
     c = 0x1680 \<or> (0x2000 \<le> c \<and> c \<le> 0x200A) \<or> c = 0x2028 \<or> c = 0x2029 \<or>
     c = 0x202F \<or> c = 0x205F \<or> c = 0x3000 \<or> c = 0xFEFF"

definition trim :: "jsstring \<Rightarrow> jsstring" where
  "trim s = rev (dropWhile isWhiteSpace (rev (dropWhile isWhiteSpace s)))"

text \<open>\<^verbatim>\<open>Array.prototype.join\<close> on an array of strings.\<close>

fun join :: "jsstring list \<Rightarrow> jsstring \<Rightarrow> jsstring" where
  "join [] sep = []"
| "join [x] sep = x"
| "join (x # y # zs) sep = x @ sep @ join (y # zs) sep"

subsection \<open>JSON values and the browser storage\<close>

datatype json =
    JNull
  | JBool bool
  | JNumber real
  | JString jsstring
  | JArray "json list"
  | JObject "(jsstring \<times> json) list"

text \<open>
  The operand of \<^verbatim>\<open>||\<close> is tested with ToBoolean: \<^verbatim>\<open>null\<close>, \<^verbatim>\<open>false\<close>,
  zero and the empty string are falsy, every array and object is truthy (JSON has no NaN).
\<close>

fun ToBoolean :: "json \<Rightarrow> bool" where
  "ToBoolean JNull = False"
| "ToBoolean (JBool b) = b"
| "ToBoolean (JNumber n) = (n \<noteq> 0)"
| "ToBoolean (JString s) = (s \<noteq> [])"
| "ToBoolean (JArray xs) = True"
| "ToBoolean (JObject kvs) = True"

text \<open>
  The module neither reads nor writes a stored text except through the platform's
  \<^verbatim>\<open>JSON.parse\<close> and \<^verbatim>\<open>JSON.stringify\<close>. A stored text is therefore
  modelled by what \<^verbatim>\<open>JSON.parse\<close> makes of it: \<open>NotJSON\<close> stands for every text
  outside the JSON grammar (corrupt data), \<open>JSONText v\<close> for every text that parses to
  the value \<open>v\<close>.
\<close>

datatype stored_text = NotJSON | JSONText json

datatype exn = SyntaxError | TypeError

type_synonym storage = "jsstring \<rightharpoonup> stored_text"

text \<open>\<^verbatim>\<open>localStorage.getItem\<close> returns \<^verbatim>\<open>null\<close> (here \<open>None\<close>) for a missing key.\<close>

definition getItem :: "storage \<Rightarrow> jsstring \<Rightarrow> stored_text option" where
  "getItem ls key = ls key"

definition setItem :: "storage \<Rightarrow> jsstring \<Rightarrow> stored_text \<Rightarrow> storage" where
  "setItem ls key t = ls(key \<mapsto> t)"

text \<open>
  \<^verbatim>\<open>JSON.parse\<close> converts its argument to a string first, so \<^verbatim>\<open>null\<close> is read as
  the text \<^verbatim>\<open>null\<close>; on a text outside the grammar it throws a SyntaxError.
\<close>

fun JSON_parse :: "stored_text option \<Rightarrow> exn + json" where
  "JSON_parse None = Inr JNull"
| "JSON_parse (Some NotJSON) = Inl SyntaxError"
| "JSON_parse (Some (JSONText v)) = Inr v"

definition JSON_stringify :: "json \<Rightarrow> stored_text" where
  "JSON_stringify v = JSONText v"

subsection \<open>Loading the two registries\<close>

text \<open>
  \<^verbatim>\<open>
  loadCustomFeeds() {
      try {
          return JSON.parse(localStorage.getItem('snd_customFeeds')) || [];
      } catch (e) {
          console.error('Error loading custom feeds:', e);
          return [];
      }
  }
  \<close>
  The result is the returned value together with the lines written to the console.
  \<^verbatim>\<open>loadDeletedArticles\<close> is the same function on the key \<^verbatim>\<open>snd_deletedArticles\<close>.
\<close>

definition loadCustomFeeds :: "storage \<Rightarrow> json \<times> jsstring list list" where
  "loadCustomFeeds ls =
     (case JSON_parse (getItem ls (js ''snd_customFeeds'')) of
        Inr v \<Rightarrow> (if ToBoolean v then v else JArray [], [])
      | Inl e \<Rightarrow> (JArray [], [[js ''Error loading custom feeds:'', js ''SyntaxError'']]))"

definition loadDeletedArticles :: "storage \<Rightarrow> json \<times> jsstring list list" where
  "loadDeletedArticles ls =
     (case JSON_parse (getItem ls (js ''snd_deletedArticles'')) of
        Inr v \<Rightarrow> (if ToBoolean v then v else JArray [], [])
      | Inl e \<Rightarrow> (JArray [], [[js ''Error loading deleted articles:'', js ''SyntaxError'']]))"

subsection \<open>Feed entries and the clock\<close>

text \<open>The argument object of \<^verbatim>\<open>addCustomFeed\<close>; \<open>None\<close> is an absent category.\<close>

record feedData =
  name :: jsstring
  url :: jsstring
  category :: "jsstring option"

record feed =
  id' :: int
  name :: jsstring
  url :: jsstring
  category :: jsstring
  dateAdded :: jsstring
  enabled :: bool

text \<open>
  A call reads the clock twice: \<^verbatim>\<open>Date.now()\<close> for the id, then \<^verbatim>\<open>new Date()\<close>
  for the date. \<open>invoked\<close> is the time value (milliseconds since the epoch) at the moment
  of the call, the two other fields are the milliseconds that have passed at each reading;
  the clock is taken not to run backwards during a call.
\<close>

record clock =
  invoked :: int
  elapsed_now :: nat
  elapsed_date :: nat

definition Date_now :: "clock \<Rightarrow> int" where
  "Date_now c = invoked c + int (elapsed_now c)"

definition new_Date :: "clock \<Rightarrow> int" where
  "new_Date c = Date_now c + int (elapsed_date c)"

text \<open>
  \<^verbatim>\<open>Date.prototype.toISOString\<close>: the UTC rendering
  \<^verbatim>\<open>YYYY-MM-DDTHH:mm:ss.sssZ\<close> of a time value (a year outside 0..9999 is written
  with a sign and six digits). \<open>digits k n\<close> are the last \<open>k\<close> decimal digits of \<open>n\<close>.
\<close>

fun digits :: "nat \<Rightarrow> nat \<Rightarrow> jsstring" where
  "digits 0 n = []"
| "digits (Suc k) n = digits k (n div 10) @ [of_nat (48 + n mod 10)]"

definition toISOString :: "int \<Rightarrow> jsstring" where
  "toISOString t =
     (let day = t div 86400000;
          ms = nat (t mod 86400000);
          z = day + 719468;
          era = z div 146097;
          doe = z mod 146097;
          yoe = (doe - doe div 1460 + doe div 36524 - doe div 146096) div 365;
          doy = doe - (365 * yoe + yoe div 4 - yoe div 100);
          mp = (5 * doy + 2) div 153;
          d = doy - (153 * mp + 2) div 5 + 1;
          m = (if mp < 10 then mp + 3 else mp - 9);
          y = yoe + era * 400 + (if m \<le> 2 then 1 else 0);
          year = (if 0 \<le> y \<and> y \<le> 9999 then digits 4 (nat y)
                  else (if y < 0 then js ''-'' else js ''+'') @ digits 6 (nat \<bar>y\<bar>))
      in year @ js ''-'' @ digits 2 (nat m) @ js ''-'' @ digits 2 (nat d) @ js ''T'' @
         digits 2 (ms div 3600000) @ js '':'' @ digits 2 (ms div 60000 mod 60) @ js '':'' @
         digits 2 (ms div 1000 mod 60) @ js ''.'' @ digits 3 (ms mod 1000) @ js ''Z'')"

text \<open>The JSON value of the feed collection, with the fields in the order of creation.\<close>

definition feed_json :: "feed \<Rightarrow> json" where
  "feed_json f = JObject
     [(js ''id'', JNumber (of_int (id' f))),
      (js ''name'', JString (name f)),
      (js ''url'', JString (url f)),
      (js ''category'', JString (category f)),
      (js ''dateAdded'', JString (dateAdded f)),
      (js ''enabled'', JBool (enabled f))]"

definition feeds_json :: "feed list \<Rightarrow> json" where
  "feeds_json fs = JArray (map feed_json fs)"

definition urls_json :: "jsstring list \<Rightarrow> json" where
  "urls_json us = JArray (map JString us)"

subsection \<open>The customizer and the page\<close>

text \<open>
  The instance fields \<^verbatim>\<open>customFeeds\<close> and \<^verbatim>\<open>deletedArticles\<close>, the storage, and
  what the methods below touch of the page. A count badge is \<open>None\<close> while its element is
  not in the document, and otherwise holds the number its text shows:
  \<open>snd_custom_count\<close> and \<open>snd_deleted_count\<close> are the spans with these ids,
  \<open>snd_stats_badge\<close> is the span of class \<^verbatim>\<open>snd-stats-badge\<close> reading
  \<^verbatim>\<open>N Custom Feeds Active\<close>. The three \<open>snd_feed_...\<close> fields are the values of the
  inputs of the add-feed form, \<open>snd_add_feed_modal\<close> tells whether that dialog is
  displayed, \<open>alerts\<close> are the messages shown so far, \<open>console\<close> the argument lists
  logged so far, \<open>clipboard\<close> the text last written to the clipboard.
\<close>

record customizer =
  customFeeds :: "feed list"
  deletedArticles :: "jsstring list"
  localStorage :: storage
  snd_custom_count :: "nat option"
  snd_deleted_count :: "nat option"
  snd_stats_badge :: "nat option"
  snd_feed_name :: jsstring
  snd_feed_url :: jsstring
  snd_feed_category :: jsstring
  snd_add_feed_modal :: bool
  alerts :: "jsstring list"
  console :: "jsstring list list"
  clipboard :: "jsstring option"

text \<open>
  \<^verbatim>\<open>
  updateStats() {
      const customCountEl = document.getElementById('snd-custom-count');
      const deletedCountEl = document.getElementById('snd-deleted-count');
      if (customCountEl) customCountEl.textContent = this.customFeeds.length;
      if (deletedCountEl) deletedCountEl.textContent = this.deletedArticles.length;
  }
  \<close>
\<close>

definition updateStats :: "customizer \<Rightarrow> customizer" where
  "updateStats st = st
     \<lparr>snd_custom_count :=
        (case snd_custom_count st of None \<Rightarrow> None | Some old \<Rightarrow> Some (length (customFeeds st))),
      snd_deleted_count :=
        (case snd_deleted_count st of None \<Rightarrow> None
         | Some old \<Rightarrow> Some (length (deletedArticles st)))\<rparr>"

definition saveCustomFeeds :: "customizer \<Rightarrow> customizer" where
  "saveCustomFeeds st = updateStats (st
     \<lparr>localStorage := setItem (localStorage st) (js ''snd_customFeeds'')
        (JSON_stringify (feeds_json (customFeeds st)))\<rparr>)"

definition saveDeletedArticles :: "customizer \<Rightarrow> customizer" where
  "saveDeletedArticles st = updateStats (st
     \<lparr>localStorage := setItem (localStorage st) (js ''snd_deletedArticles'')
        (JSON_stringify (urls_json (deletedArticles st)))\<rparr>)"

subsection \<open>Custom feeds management\<close>

text \<open>
  \<^verbatim>\<open>
  addCustomFeed(feedData) {
      const feed = {
          id: Date.now(),
          name: feedData.name,
          url: feedData.url,
          category: feedData.category || 'General',
          dateAdded: new Date().toISOString(),
          enabled: true
      };
      this.customFeeds.push(feed);
      this.saveCustomFeeds();
      return feed;
  }
  \<close>
\<close>

definition addCustomFeed :: "feedData \<Rightarrow> clock \<Rightarrow> customizer \<Rightarrow> feed \<times> customizer" where
  "addCustomFeed feedData clk st =
     (let feed = \<lparr>id' = Date_now clk,
                  name = feedData.name feedData,
                  url = feedData.url feedData,
                  category = (case feedData.category feedData of
                                None \<Rightarrow> js ''General''
                              | Some c \<Rightarrow> if c = [] then js ''General'' else c),
                  dateAdded = toISOString (new_Date clk),
                  enabled = True\<rparr>
      in (feed, saveCustomFeeds (st\<lparr>customFeeds := customFeeds st @ [feed]\<rparr>)))"

text \<open>
  \<^verbatim>\<open>
  removeCustomFeed(feedId) {
      this.customFeeds = this.customFeeds.filter(f => f.id !== feedId);
      this.saveCustomFeeds();
  }
  \<close>
\<close>

definition removeCustomFeed :: "int \<Rightarrow> customizer \<Rightarrow> customizer" where
  "removeCustomFeed feedId st =
     saveCustomFeeds (st\<lparr>customFeeds := filter (\<lambda>f. id' f \<noteq> feedId) (customFeeds st)\<rparr>)"

text \<open>
  \<^verbatim>\<open>
  toggleCustomFeed(feedId) {
      const feed = this.customFeeds.find(f => f.id === feedId);
      if (feed) {
          feed.enabled = !feed.enabled;
          this.saveCustomFeeds();
      }
  }
  \<close>
  \<^verbatim>\<open>find\<close> returns the first matching object of the array, and the assignment changes
  that object where it stands: \<open>flip_found\<close> is the array after the assignment.
\<close>

fun flip_found :: "int \<Rightarrow> feed list \<Rightarrow> feed list" where
  "flip_found feedId [] = []"
| "flip_found feedId (f # fs) =
     (if id' f = feedId then f\<lparr>enabled := \<not> enabled f\<rparr> # fs else f # flip_found feedId fs)"

definition toggleCustomFeed :: "int \<Rightarrow> customizer \<Rightarrow> customizer" where
  "toggleCustomFeed feedId st =
     (case find (\<lambda>f. id' f = feedId) (customFeeds st) of
        None \<Rightarrow> st
      | Some feed \<Rightarrow> saveCustomFeeds (st\<lparr>customFeeds := flip_found feedId (customFeeds st)\<rparr>))"

text \<open>A sequence of Feed Registry operations, each add with the clock it reads.\<close>

datatype feed_op = Add feedData clock | Remove int | Toggle int

fun apply_op :: "customizer \<Rightarrow> feed_op \<Rightarrow> customizer" where
  "apply_op st (Add feedData clk) = snd (addCustomFeed feedData clk st)"
| "apply_op st (Remove feedId) = removeCustomFeed feedId st"
| "apply_op st (Toggle feedId) = toggleCustomFeed feedId st"

definition run :: "customizer \<Rightarrow> feed_op list \<Rightarrow> customizer" where
  "run st ops = foldl apply_op st ops"

text \<open>The \<^verbatim>\<open>Date.now()\<close> readings of the adds of a sequence, in order.\<close>

fun now_readings :: "feed_op list \<Rightarrow> int list" where
  "now_readings [] = []"
| "now_readings (Add feedData clk # ops) = Date_now clk # now_readings ops"
| "now_readings (Remove feedId # ops) = now_readings ops"
| "now_readings (Toggle feedId # ops) = now_readings ops"

subsection \<open>Article deletion\<close>

text \<open>
  \<^verbatim>\<open>
  deleteArticle(articleUrl) {
      if (!this.deletedArticles.includes(articleUrl)) {
          this.deletedArticles.push(articleUrl);
          this.saveDeletedArticles();
      }
  }
  restoreArticle(articleUrl) {
      this.deletedArticles = this.deletedArticles.filter(url => url !== articleUrl);
      this.saveDeletedArticles();
  }
  isArticleDeleted(articleUrl) {
      return this.deletedArticles.includes(articleUrl);
  }
  \<close>
\<close>

definition isArticleDeleted :: "jsstring \<Rightarrow> customizer \<Rightarrow> bool" where
  "isArticleDeleted articleUrl st \<longleftrightarrow> articleUrl \<in> set (deletedArticles st)"

definition deleteArticle :: "jsstring \<Rightarrow> customizer \<Rightarrow> customizer" where
  "deleteArticle articleUrl st =
     (if articleUrl \<notin> set (deletedArticles st)
      then saveDeletedArticles (st\<lparr>deletedArticles := deletedArticles st @ [articleUrl]\<rparr>)
      else st)"

definition restoreArticle :: "jsstring \<Rightarrow> customizer \<Rightarrow> customizer" where
  "restoreArticle articleUrl st =
     saveDeletedArticles
       (st\<lparr>deletedArticles := filter (\<lambda>url. url \<noteq> articleUrl) (deletedArticles st)\<rparr>)"

subsection \<open>Page set-up\<close>

text \<open>
  \<^verbatim>\<open>addControlButtons\<close> inserts the control bar, whose three badges are written from
  the collections as they are at that moment
  (\<^verbatim>\<open>${this.customFeeds.length}\<close>, \<^verbatim>\<open>${this.deletedArticles.length}\<close>,
  \<^verbatim>\<open>${this.customFeeds.filter(f => f.enabled).length} Custom Feeds Active\<close>), and calls
  \<^verbatim>\<open>addModals\<close>, which inserts the dialogs (not displayed) and the empty add-feed form.
\<close>

definition addModals :: "customizer \<Rightarrow> customizer" where
  "addModals st = st
     \<lparr>snd_feed_name := [], snd_feed_url := [], snd_feed_category := [],
      snd_add_feed_modal := False\<rparr>"

definition addControlButtons :: "customizer \<Rightarrow> customizer" where
  "addControlButtons st = addModals (st
     \<lparr>snd_custom_count := Some (length (customFeeds st)),
      snd_deleted_count := Some (length (deletedArticles st)),
      snd_stats_badge := Some (length (filter enabled (customFeeds st)))\<rparr>)"

text \<open>
  \<^verbatim>\<open>setupUI\<close> also injects the style sheet and decorates the article links, and
  \<^verbatim>\<open>init\<close> also greys out the deleted articles; these steps write to parts of the page
  that are not in the model.
\<close>

definition setupUI :: "customizer \<Rightarrow> customizer" where
  "setupUI st = addControlButtons st"

definition init :: "customizer \<Rightarrow> customizer" where
  "init st = updateStats (setupUI st)"

text \<open>
  The constructor on a page load with storage \<open>ls\<close>, where \<open>fs\<close> and \<open>us\<close> are the
  collections that the two loads returned.
\<close>

definition SeniorNewsCustomizer :: "storage \<Rightarrow> feed list \<Rightarrow> jsstring list \<Rightarrow> customizer" where
  "SeniorNewsCustomizer ls fs us = init
     \<lparr>customFeeds = fs, deletedArticles = us, localStorage = ls,
      snd_custom_count = None, snd_deleted_count = None, snd_stats_badge = None,
      snd_feed_name = [], snd_feed_url = [], snd_feed_category = [],
      snd_add_feed_modal = False, alerts = [],
      console = snd (loadCustomFeeds ls) @ snd (loadDeletedArticles ls),
      clipboard = None\<rparr>"

subsection \<open>The add-feed handler\<close>

definition alert :: "jsstring \<Rightarrow> customizer \<Rightarrow> customizer" where
  "alert message st = st\<lparr>alerts := alerts st @ [message]\<rparr>"

text \<open>
  \<^verbatim>\<open>
  handleAddFeed() {
      const name = document.getElementById('snd-feed-name').value.trim();
      const url = document.getElementById('snd-feed-url').value.trim();
      const category = document.getElementById('snd-feed-category').value.trim();
      if (!name || !url) {
          alert('Please fill in all required fields.');
          return;
      }
      try {
          new URL(url);
      } catch (e) {
          alert('Please enter a valid URL.');
          return;
      }
      this.addCustomFeed({ name, url, category });
      alert(`... Successfully added "${name}"!\n\nYour custom feed has been saved. ...`);
      this.closeModal('snd-add-feed-modal');
      document.getElementById('snd-add-feed-form').reset();
      this.updateStats();
  }
  \<close>
  The platform's URL parser is not part of the module: \<open>url_parses\<close> tells whether
  \<^verbatim>\<open>new URL(url)\<close> returns (the text is an absolute URL) or throws. The message of
  success starts with the three code units that the source file has before its first word.
\<close>

definition added_message :: "jsstring \<Rightarrow> jsstring" where
  "added_message shown =
     [0x201A, 0xFA, 0xD6] @ js '' Successfully added '' @ [0x22] @ shown @ [0x22] @ js ''!'' @
     [0x0A, 0x0A] @
     js ''Your custom feed has been saved. Note: Articles from this feed will appear on the next site update.''"

definition handleAddFeed :: "bool \<Rightarrow> clock \<Rightarrow> customizer \<Rightarrow> customizer" where
  "handleAddFeed url_parses clk st =
     (let name = trim (snd_feed_name st);
          url = trim (snd_feed_url st);
          category = trim (snd_feed_category st)
      in if name = [] \<or> url = [] then alert (js ''Please fill in all required fields.'') st
         else if \<not> url_parses then alert (js ''Please enter a valid URL.'') st
         else
           let st1 = snd (addCustomFeed
                 \<lparr>feedData.name = name, url = url, category = Some category\<rparr> clk st);
               st2 = alert (added_message name) st1;
               st3 = st2\<lparr>snd_add_feed_modal := False\<rparr>;
               st4 = st3\<lparr>snd_feed_name := [], snd_feed_url := [], snd_feed_category := []\<rparr>
           in updateStats st4)"

subsection \<open>Export\<close>

text \<open>
  \<^verbatim>\<open>
  exportCustomFeedsForYAML() {
      if (this.customFeeds.length === 0) {
          alert('No custom feeds to export.');
          return;
      }
      const yamlLines = [
          '# Custom feeds added by user',
          ...this.customFeeds.map(feed => `  - ${feed.url}  # ${feed.name} (${feed.category})`)
      ];
      const yamlContent = yamlLines.join('\n');
      navigator.clipboard.writeText(yamlContent).then(() => {
          alert('... Custom feeds copied to clipboard!\n\nYou can paste these into your feeds.yaml file.');
      }).catch(() => {
          alert('Custom feeds:\n\n' + yamlContent);
      });
      console.log('Custom Feeds for feeds.yaml:\n', yamlContent);
  }
  \<close>
  The clipboard belongs to the platform: the write resolves, or it rejects, or
  \<^verbatim>\<open>navigator.clipboard\<close> is undefined (a page that is not in a secure context), in
  which case the property access throws a TypeError that nothing catches.
\<close>

datatype clipboard_access = Resolves | Rejects | Undefined

definition yaml_line :: "feed \<Rightarrow> jsstring" where
  "yaml_line feed =
     js ''  - '' @ url feed @ js ''  # '' @ name feed @ js '' ('' @ category feed @ js '')''"

definition yamlLines :: "feed list \<Rightarrow> jsstring list" where
  "yamlLines fs = js ''# Custom feeds added by user'' # map yaml_line fs"

definition yamlContent :: "feed list \<Rightarrow> jsstring" where
  "yamlContent fs = join (yamlLines fs) [0x0A]"

definition copied_message :: jsstring where
  "copied_message =
     [0x201A, 0xFA, 0xD6] @ js '' Custom feeds copied to clipboard!'' @ [0x0A, 0x0A] @
     js ''You can paste these into your feeds.yaml file.''"

definition exportCustomFeedsForYAML :: "clipboard_access \<Rightarrow> customizer \<Rightarrow> exn + customizer" where
  "exportCustomFeedsForYAML access st =
     (if length (customFeeds st) = 0 then Inr (alert (js ''No custom feeds to export.'') st)
      else
        let logged = st\<lparr>console := console st @
              [[js ''Custom Feeds for feeds.yaml:'' @ [0x0A], yamlContent (customFeeds st)]]\<rparr>
        in case access of
             Undefined \<Rightarrow> Inl TypeError
           | Resolves \<Rightarrow>
               Inr (alert copied_message
                      (logged\<lparr>clipboard := Some (yamlContent (customFeeds st))\<rparr>))
           | Rejects \<Rightarrow>
               Inr (alert (js ''Custom feeds:'' @ [0x0A, 0x0A] @ yamlContent (customFeeds st))
                      logged))"

subsection \<open>Inputs of the examples\<close>

text \<open>
  A page load on empty storage; the feed of the specification's scenario; a call during
  which the clock stays at the millisecond \<open>t\<close>.
\<close>

definition fresh_page :: customizer where
  "fresh_page = SeniorNewsCustomizer Map.empty [] []"

definition magazine :: feedData where
  "magazine = \<lparr>feedData.name = js ''Senior Living Magazine'',
                url = js ''https://example.com/rss'',
                category = Some (js ''Lifestyle'')\<rparr>"

definition at_ms :: "int \<Rightarrow> clock" where
  "at_ms t = \<lparr>invoked = t, elapsed_now = 0, elapsed_date = 0\<rparr>"

text \<open>
  The shape that both registries share: an ordered sequence. A stored value that is not
  even a sequence is of the wrong shape for either registry.
\<close>

fun is_sequence :: "json \<Rightarrow> bool" where
  "is_sequence (JArray xs) = True"
| "is_sequence v = False"

section \<open>Properties\<close>

subsection \<open>Auxiliary facts\<close>

lemma js_Nil [simp]: "js [] = []"
  by (simp add: js_def)

lemma js_Cons: "js (c # cs) = of_char c # js cs"
  by (simp add: js_def)

lemma js_eq_Nil [simp]: "js s = [] \<longleftrightarrow> s = []"
  by (simp add: js_def)

lemma updateStats_fields [simp]:
  "customFeeds (updateStats st) = customFeeds st"
  "deletedArticles (updateStats st) = deletedArticles st"
  "localStorage (updateStats st) = localStorage st"
  "snd_stats_badge (updateStats st) = snd_stats_badge st"
  "alerts (updateStats st) = alerts st"
  "console (updateStats st) = console st"
  "clipboard (updateStats st) = clipboard st"
  by (simp_all add: updateStats_def)

lemma updateStats_badges:
  "snd_custom_count (updateStats st) = map_option (\<lambda>old. length (customFeeds st)) (snd_custom_count st)"
  "snd_deleted_count (updateStats st) = map_option (\<lambda>old. length (deletedArticles st)) (snd_deleted_count st)"
  by (simp_all add: updateStats_def split: option.splits)

lemma saveCustomFeeds_fields [simp]:
  "customFeeds (saveCustomFeeds st) = customFeeds st"
  "deletedArticles (saveCustomFeeds st) = deletedArticles st"
  "snd_stats_badge (saveCustomFeeds st) = snd_stats_badge st"
  "alerts (saveCustomFeeds st) = alerts st"
  "localStorage (saveCustomFeeds st) =
     setItem (localStorage st) (js ''snd_customFeeds'') (JSON_stringify (feeds_json (customFeeds st)))"
  by (simp_all add: saveCustomFeeds_def)

lemma saveDeletedArticles_fields [simp]:
  "customFeeds (saveDeletedArticles st) = customFeeds st"
  "deletedArticles (saveDeletedArticles st) = deletedArticles st"
  "snd_stats_badge (saveDeletedArticles st) = snd_stats_badge st"
  "alerts (saveDeletedArticles st) = alerts st"
  by (simp_all add: saveDeletedArticles_def)

lemma customFeeds_add [simp]:
  "customFeeds (snd (addCustomFeed d clk st)) = customFeeds st @ [fst (addCustomFeed d clk st)]"
  by (simp add: addCustomFeed_def Let_def)

lemma id_add [simp]: "id' (fst (addCustomFeed d clk st)) = Date_now clk"
  by (simp add: addCustomFeed_def Let_def)

lemma customFeeds_remove [simp]:
  "customFeeds (removeCustomFeed feedId st) = filter (\<lambda>f. id' f \<noteq> feedId) (customFeeds st)"
  by (simp add: removeCustomFeed_def)

lemma ids_flip_found [simp]: "map id' (flip_found feedId fs) = map id' fs"
  by (induction fs) simp_all

lemma flip_found_twice: "flip_found feedId (flip_found feedId fs) = fs"
  by (induction fs) simp_all

lemma flip_found_absent: "feedId \<notin> id' ` set fs \<Longrightarrow> flip_found feedId fs = fs"
  by (induction fs) auto

lemma flip_found_first:
  "\<forall>g \<in> set pre. id' g \<noteq> feedId \<Longrightarrow> id' f = feedId \<Longrightarrow>
     flip_found feedId (pre @ f # post) = pre @ f\<lparr>enabled := \<not> enabled f\<rparr> # post"
  by (induction pre) simp_all

lemma customFeeds_toggle:
  "customFeeds (toggleCustomFeed feedId st) = flip_found feedId (customFeeds st)"
proof (cases "find (\<lambda>f. id' f = feedId) (customFeeds st)")
  case None
  then have "feedId \<notin> id' ` set (customFeeds st)"
    by (auto simp: find_None_iff)
  with None show ?thesis
    by (simp add: toggleCustomFeed_def flip_found_absent)
next
  case (Some feed)
  then show ?thesis
    by (simp add: toggleCustomFeed_def)
qed

lemma id_set_flip_found [simp]: "id' ` set (flip_found feedId fs) = id' ` set fs"
  using ids_flip_found [of feedId fs] by (metis set_map)

lemma ids_apply_op:
  "id' ` set (customFeeds (apply_op st op)) \<subseteq> id' ` set (customFeeds st) \<union> set (now_readings [op])"
  by (cases op) (auto simp: customFeeds_toggle)

lemma distinct_apply_op:
  assumes "distinct (map id' (customFeeds st))"
    and "set (now_readings [op]) \<inter> id' ` set (customFeeds st) = {}"
  shows "distinct (map id' (customFeeds (apply_op st op)))"
  using assms by (cases op) (auto simp: customFeeds_toggle distinct_map_filter)

lemma now_readings_Cons: "now_readings (op # ops) = now_readings [op] @ now_readings ops"
  by (cases op) simp_all

lemma distinct_run:
  "distinct (map id' (customFeeds st)) \<Longrightarrow> distinct (now_readings ops) \<Longrightarrow>
   set (now_readings ops) \<inter> id' ` set (customFeeds st) = {} \<Longrightarrow>
   distinct (map id' (customFeeds (run st ops)))"
proof (induction ops arbitrary: st)
  case Nil
  then show ?case by (simp add: run_def)
next
  case (Cons op ops)
  have split: "now_readings (op # ops) = now_readings [op] @ now_readings ops"
    by (rule now_readings_Cons)
  have step: "distinct (map id' (customFeeds (apply_op st op)))"
    using Cons.prems by (intro distinct_apply_op) (auto simp: split)
  have rest: "distinct (now_readings ops)"
    using Cons.prems by (simp add: split)
  have apart: "set (now_readings ops) \<inter> id' ` set (customFeeds (apply_op st op)) = {}"
  proof -
    have "set (now_readings ops) \<inter> id' ` set (customFeeds st) = {}"
      and "set (now_readings ops) \<inter> set (now_readings [op]) = {}"
      using Cons.prems by (auto simp: split)
    with ids_apply_op [of st op] show ?thesis by blast
  qed
  have "distinct (map id' (customFeeds (run (apply_op st op) ops)))"
    by (rule Cons.IH [OF step rest apart])
  then show ?case by (simp add: run_def)
qed

lemma fresh_page_fields [simp]:
  "customFeeds fresh_page = []"
  "deletedArticles fresh_page = []"
  "localStorage fresh_page = Map.empty"
  "snd_custom_count fresh_page = Some 0"
  "snd_deleted_count fresh_page = Some 0"
  "snd_stats_badge fresh_page = Some 0"
  "alerts fresh_page = []"
  "console fresh_page = []"
  "clipboard fresh_page = None"
  by (simp_all add: fresh_page_def SeniorNewsCustomizer_def init_def setupUI_def
      addControlButtons_def addModals_def updateStats_def loadCustomFeeds_def
      loadDeletedArticles_def getItem_def)

lemma magazine_entry:
  "fst (addCustomFeed magazine (at_ms t) st) =
     \<lparr>id' = t, name = js ''Senior Living Magazine'', url = js ''https://example.com/rss'',
      category = js ''Lifestyle'', dateAdded = toISOString t, enabled = True\<rparr>"
  by (simp add: addCustomFeed_def Let_def magazine_def at_ms_def Date_now_def new_Date_def js_Cons)

lemma Date_now_at_ms [simp]: "Date_now (at_ms t) = t"
  by (simp add: at_ms_def Date_now_def)

lemma alert_fields [simp]:
  "customFeeds (alert m st) = customFeeds st"
  "deletedArticles (alert m st) = deletedArticles st"
  "localStorage (alert m st) = localStorage st"
  "alerts (alert m st) = alerts st @ [m]"
  "clipboard (alert m st) = clipboard st"
  "console (alert m st) = console st"
  by (simp_all add: alert_def)

lemma trim_examples:
  "trim (js ''   '') = []"
  "trim (js '' Senior Living Magazine '') = js ''Senior Living Magazine''"
  "trim (js ''Senior Living Magazine'') = js ''Senior Living Magazine''"
  "trim (js ''https://example.com/rss'') = js ''https://example.com/rss''"
  "trim (js ''not a url'') = js ''not a url''"
  "trim (js ''Lifestyle'') = js ''Lifestyle''"
  by (simp_all add: trim_def isWhiteSpace_def js_Cons)

lemma length_yamlLines: "length (yamlLines fs) = length fs + 1"
  by (simp add: yamlLines_def)

lemma nth_yamlLines: "i < length fs \<Longrightarrow> yamlLines fs ! Suc i = yaml_line (fs ! i)"
  by (simp add: yamlLines_def)

text \<open>The rendering of three known time values.\<close>

lemma digits_numeral:
  "digits (numeral k) n = digits (pred_numeral k) (n div 10) @ [of_nat (48 + n mod 10)]"
  by (subst numeral_eq_Suc) (simp only: digits.simps)

lemma digits_1: "digits 1 n = [of_nat (48 + n mod 10)]"
  by (simp add: One_nat_def del: One_nat_def [symmetric])

lemma toISOString_2023: "toISOString 1700000000000 = js ''2023-11-14T22:13:20.000Z''"
  apply (simp only: toISOString_def Let_def)
  apply (simp del: digits.simps)
  apply (simp only: digits_numeral digits_1 pred_numeral_simps)
  apply (simp add: js_Cons del: digits.simps)
  apply (simp add: digits_numeral digits_1)
  done

lemma toISOString_leap_day: "toISOString 951782400000 = js ''2000-02-29T00:00:00.000Z''"
  apply (simp only: toISOString_def Let_def)
  apply (simp del: digits.simps)
  apply (simp only: digits_numeral digits_1 pred_numeral_simps)
  apply (simp add: js_Cons del: digits.simps)
  apply (simp add: digits_numeral digits_1)
  done

lemma toISOString_before_epoch: "toISOString (- 1) = js ''1969-12-31T23:59:59.999Z''"
  apply (simp only: toISOString_def Let_def)
  apply (simp del: digits.simps)
  apply (simp only: digits_numeral digits_1 pred_numeral_simps)
  apply (simp add: js_Cons del: digits.simps)
  apply (simp add: digits_numeral digits_1)
  done

subsection \<open>Loading\<close>

text \<open>
  Claim C1, as the code has it. For every stored text under either registry's key, loading
  never raises to the caller (both loaders are total and return a value): a missing or
  corrupt text gives \<open>[]\<close>, and so does a text that parses to a falsy value
  (\<^verbatim>\<open>null\<close>, \<^verbatim>\<open>false\<close>, \<^verbatim>\<open>0\<close>, the empty string); every other text that
  parses is returned as the value it parses to, whatever its shape.
\<close>

theorem load_never_raises:
  "(getItem ls (js ''snd_customFeeds'') = None \<longrightarrow> fst (loadCustomFeeds ls) = JArray [])
   \<and> (getItem ls (js ''snd_customFeeds'') = Some NotJSON \<longrightarrow> fst (loadCustomFeeds ls) = JArray [])
   \<and> (\<forall>v. getItem ls (js ''snd_customFeeds'') = Some (JSONText v) \<longrightarrow>
          fst (loadCustomFeeds ls) = (if ToBoolean v then v else JArray []))
   \<and> (getItem ls (js ''snd_deletedArticles'') = None \<longrightarrow> fst (loadDeletedArticles ls) = JArray [])
   \<and> (getItem ls (js ''snd_deletedArticles'') = Some NotJSON \<longrightarrow>
          fst (loadDeletedArticles ls) = JArray [])
   \<and> (\<forall>v. getItem ls (js ''snd_deletedArticles'') = Some (JSONText v) \<longrightarrow>
          fst (loadDeletedArticles ls) = (if ToBoolean v then v else JArray []))"
  by (simp add: loadCustomFeeds_def loadDeletedArticles_def)


text \<open>
  The theorem at a corrupt text, at the text \<^verbatim>\<open>null\<close>, at a stored sequence, and at a
  missing key.
\<close>

theorem load_never_raises_witness:
  "fst (loadCustomFeeds (Map.empty(js ''snd_customFeeds'' \<mapsto> NotJSON))) = JArray []
   \<and> fst (loadCustomFeeds (Map.empty(js ''snd_customFeeds'' \<mapsto> JSONText JNull))) = JArray []
   \<and> fst (loadCustomFeeds (Map.empty(js ''snd_customFeeds'' \<mapsto> JSONText (JArray [JNumber 7]))))
       = JArray [JNumber 7]
   \<and> fst (loadDeletedArticles Map.empty) = JArray []
   \<and> fst (loadDeletedArticles (Map.empty(js ''snd_deletedArticles'' \<mapsto> NotJSON))) = JArray []
   \<and> fst (loadDeletedArticles (Map.empty(js ''snd_deletedArticles'' \<mapsto>
         JSONText (JArray [JString (js ''https://news.example.com/a1'')]))))
       = JArray [JString (js ''https://news.example.com/a1'')]"
proof -
  let ?k = "js ''snd_customFeeds''" and ?d = "js ''snd_deletedArticles''"
  have a: "getItem (Map.empty(?k \<mapsto> NotJSON)) ?k = Some NotJSON"
    and b: "getItem (Map.empty(?k \<mapsto> JSONText JNull)) ?k = Some (JSONText JNull)"
    and c: "getItem (Map.empty(?k \<mapsto> JSONText (JArray [JNumber 7]))) ?k
              = Some (JSONText (JArray [JNumber 7]))"
    and d: "getItem Map.empty ?d = None"
    and e: "getItem (Map.empty(?d \<mapsto> NotJSON)) ?d = Some NotJSON"
    and f: "getItem (Map.empty(?d \<mapsto> JSONText (JArray [JString (js ''https://news.example.com/a1'')]))) ?d
              = Some (JSONText (JArray [JString (js ''https://news.example.com/a1'')]))"
    by (simp_all add: getItem_def)
  show ?thesis
    using load_never_raises [of "Map.empty(?k \<mapsto> NotJSON)"]
      load_never_raises [of "Map.empty(?k \<mapsto> JSONText JNull)"]
      load_never_raises [of "Map.empty(?k \<mapsto> JSONText (JArray [JNumber 7]))"]
      load_never_raises [of Map.empty]
      load_never_raises [of "Map.empty(?d \<mapsto> NotJSON)"]
      load_never_raises [of "Map.empty(?d \<mapsto> JSONText (JArray [JString (js ''https://news.example.com/a1'')]))"]
      a b c d e f
    by simp
qed


text \<open>
  Claim C1 as it is written fails on a text of the wrong shape: the stored text
  \<^verbatim>\<open>42\<close> under \<^verbatim>\<open>snd_customFeeds\<close> is valid JSON and not a sequence, and
  \<^verbatim>\<open>loadCustomFeeds\<close> returns the number 42, not \<open>[]\<close>; likewise the text
  \<^verbatim>\<open>{}\<close> under \<^verbatim>\<open>snd_deletedArticles\<close>.
\<close>

theorem load_wrong_shape_counterexample:
  "\<not> is_sequence (JNumber 42)
   \<and> fst (loadCustomFeeds (Map.empty(js ''snd_customFeeds'' \<mapsto> JSONText (JNumber 42)))) = JNumber 42
   \<and> fst (loadCustomFeeds (Map.empty(js ''snd_customFeeds'' \<mapsto> JSONText (JNumber 42)))) \<noteq> JArray []
   \<and> \<not> is_sequence (JObject [])
   \<and> fst (loadDeletedArticles (Map.empty(js ''snd_deletedArticles'' \<mapsto> JSONText (JObject []))))
       \<noteq> JArray []"
  by (simp add: loadCustomFeeds_def loadDeletedArticles_def getItem_def)

subsection \<open>Uniqueness of ids\<close>

text \<open>
  Claim C2, as the code has it. An entry's id is the \<^verbatim>\<open>Date.now()\<close> reading of the
  add that created it. For every sequence of Feed Registry operations that starts from the
  empty collection and whose adds read pairwise distinct clock values, the ids of the
  collection are pairwise distinct.
\<close>

theorem ids_unique_when_readings_differ:
  "customFeeds st = [] \<Longrightarrow> distinct (now_readings ops) \<Longrightarrow>
     distinct (map id' (customFeeds (run st ops)))"
  by (rule distinct_run) simp_all


text \<open>
  The theorem on a session of three adds at three different milliseconds, with a toggle and
  a remove in between.
\<close>

theorem ids_unique_when_readings_differ_witness:
  "map id' (customFeeds (run fresh_page
      [Add magazine (at_ms 1700000000000), Toggle 1700000000000,
       Add magazine (at_ms 1700000000001), Remove 1700000000000,
       Add magazine (at_ms 1700000060000)])) = [1700000000001, 1700000060000]
   \<and> distinct (map id' (customFeeds (run fresh_page
      [Add magazine (at_ms 1700000000000), Toggle 1700000000000,
       Add magazine (at_ms 1700000000001), Remove 1700000000000,
       Add magazine (at_ms 1700000060000)])))"
proof -
  let ?ops = "[Add magazine (at_ms 1700000000000), Toggle 1700000000000,
       Add magazine (at_ms 1700000000001), Remove 1700000000000,
       Add magazine (at_ms 1700000060000)]"
  have start: "customFeeds fresh_page = []"
    by simp
  have readings: "distinct (now_readings ?ops)"
    by simp
  have ids: "map id' (customFeeds (run fresh_page ?ops)) = [1700000000001, 1700000060000]"
    by (simp add: run_def customFeeds_toggle)
  show ?thesis
    using ids_unique_when_readings_differ [OF start readings] ids by simp
qed


text \<open>
  Claim C2 as it is written fails: two adds that read the same millisecond
  (two calls in a row from one script) create two entries with the same id.
\<close>

theorem ids_collide_counterexample:
  "\<not> distinct (map id' (customFeeds (run fresh_page
      [Add magazine (at_ms 1700000000000), Add magazine (at_ms 1700000000000)])))"
  by (simp add: run_def)

subsection \<open>Validation in the add-feed handler\<close>

text \<open>
  Claim C3. For every pair of values of the name and URL fields: if the name or the URL is
  empty after trimming, or the URL does not parse as an absolute URL, the handler stops
  with a message (the first or the second one of the source) and changes neither the feed
  collection nor the stored texts; otherwise exactly one entry, with the trimmed name and
  URL, is appended to the collection and the collection is persisted.
\<close>

theorem handleAddFeed_validates:
  "(trim (snd_feed_name st) = [] \<or> trim (snd_feed_url st) = [] \<longrightarrow>
      handleAddFeed url_parses clk st = alert (js ''Please fill in all required fields.'') st)
   \<and> (trim (snd_feed_name st) \<noteq> [] \<and> trim (snd_feed_url st) \<noteq> [] \<and> \<not> url_parses \<longrightarrow>
      handleAddFeed url_parses clk st = alert (js ''Please enter a valid URL.'') st)
   \<and> (trim (snd_feed_name st) = [] \<or> trim (snd_feed_url st) = [] \<or> \<not> url_parses \<longrightarrow>
      customFeeds (handleAddFeed url_parses clk st) = customFeeds st
      \<and> localStorage (handleAddFeed url_parses clk st) = localStorage st
      \<and> length (alerts (handleAddFeed url_parses clk st)) = length (alerts st) + 1)
   \<and> (trim (snd_feed_name st) \<noteq> [] \<and> trim (snd_feed_url st) \<noteq> [] \<and> url_parses \<longrightarrow>
      (\<exists>feed. customFeeds (handleAddFeed url_parses clk st) = customFeeds st @ [feed]
         \<and> name feed = trim (snd_feed_name st)
         \<and> url feed = trim (snd_feed_url st)
         \<and> localStorage (handleAddFeed url_parses clk st) =
             setItem (localStorage st) (js ''snd_customFeeds'')
               (JSON_stringify (feeds_json (customFeeds st @ [feed])))))"
proof (intro conjI impI)
  assume "trim (snd_feed_name st) = [] \<or> trim (snd_feed_url st) = []"
  then show "handleAddFeed url_parses clk st = alert (js ''Please fill in all required fields.'') st"
    by (auto simp: handleAddFeed_def Let_def)
next
  assume "trim (snd_feed_name st) \<noteq> [] \<and> trim (snd_feed_url st) \<noteq> [] \<and> \<not> url_parses"
  then show "handleAddFeed url_parses clk st = alert (js ''Please enter a valid URL.'') st"
    by (simp add: handleAddFeed_def Let_def)
next
  assume bad: "trim (snd_feed_name st) = [] \<or> trim (snd_feed_url st) = [] \<or> \<not> url_parses"
  then have "\<exists>m. handleAddFeed url_parses clk st = alert m st"
    by (auto simp: handleAddFeed_def Let_def)
  then obtain m where m: "handleAddFeed url_parses clk st = alert m st" ..
  show "customFeeds (handleAddFeed url_parses clk st) = customFeeds st"
    and "localStorage (handleAddFeed url_parses clk st) = localStorage st"
    and "length (alerts (handleAddFeed url_parses clk st)) = length (alerts st) + 1"
    by (simp_all add: m)
next
  assume good: "trim (snd_feed_name st) \<noteq> [] \<and> trim (snd_feed_url st) \<noteq> [] \<and> url_parses"
  let ?d = "\<lparr>feedData.name = trim (snd_feed_name st), url = trim (snd_feed_url st),
              category = Some (trim (snd_feed_category st))\<rparr>"
  let ?feed = "fst (addCustomFeed ?d clk st)"
  have "customFeeds (handleAddFeed url_parses clk st) = customFeeds st @ [?feed]"
    using good by (simp add: handleAddFeed_def Let_def)
  moreover have "name ?feed = trim (snd_feed_name st)" "url ?feed = trim (snd_feed_url st)"
    by (simp_all add: addCustomFeed_def Let_def)
  moreover have "localStorage (handleAddFeed url_parses clk st) =
      setItem (localStorage st) (js ''snd_customFeeds'')
        (JSON_stringify (feeds_json (customFeeds st @ [?feed])))"
    using good by (simp add: handleAddFeed_def Let_def addCustomFeed_def)
  ultimately show "\<exists>feed. customFeeds (handleAddFeed url_parses clk st) = customFeeds st @ [feed]
         \<and> name feed = trim (snd_feed_name st)
         \<and> url feed = trim (snd_feed_url st)
         \<and> localStorage (handleAddFeed url_parses clk st) =
             setItem (localStorage st) (js ''snd_customFeeds'')
               (JSON_stringify (feeds_json (customFeeds st @ [feed])))"
    by blast
qed

text \<open>
  The theorem on a page where the name is blank, on one where the URL field holds
  \<^verbatim>\<open>not a url\<close> (which the platform rejects), and on the scenario's feed (whose URL
  the platform accepts), typed with spaces around the name.
\<close>

theorem handleAddFeed_validates_witness:
  "customFeeds (handleAddFeed True (at_ms 1700000000000)
      (fresh_page\<lparr>snd_feed_name := js ''   '', snd_feed_url := js ''https://example.com/rss''\<rparr>)) = []
   \<and> alerts (handleAddFeed True (at_ms 1700000000000)
      (fresh_page\<lparr>snd_feed_name := js ''   '', snd_feed_url := js ''https://example.com/rss''\<rparr>))
       = [js ''Please fill in all required fields.'']
   \<and> customFeeds (handleAddFeed False (at_ms 1700000000000)
      (fresh_page\<lparr>snd_feed_name := js ''Senior Living Magazine'', snd_feed_url := js ''not a url''\<rparr>)) = []
   \<and> alerts (handleAddFeed False (at_ms 1700000000000)
      (fresh_page\<lparr>snd_feed_name := js ''Senior Living Magazine'', snd_feed_url := js ''not a url''\<rparr>))
       = [js ''Please enter a valid URL.'']
   \<and> length (customFeeds (handleAddFeed True (at_ms 1700000000000)
      (fresh_page\<lparr>snd_feed_name := js '' Senior Living Magazine '',
                   snd_feed_url := js ''https://example.com/rss'',
                   snd_feed_category := js ''Lifestyle''\<rparr>))) = 1
   \<and> map name (customFeeds (handleAddFeed True (at_ms 1700000000000)
      (fresh_page\<lparr>snd_feed_name := js '' Senior Living Magazine '',
                   snd_feed_url := js ''https://example.com/rss'',
                   snd_feed_category := js ''Lifestyle''\<rparr>))) = [js ''Senior Living Magazine'']"
proof -
  let ?a = "fresh_page\<lparr>snd_feed_name := js ''   '', snd_feed_url := js ''https://example.com/rss''\<rparr>"
  let ?b = "fresh_page\<lparr>snd_feed_name := js ''Senior Living Magazine'', snd_feed_url := js ''not a url''\<rparr>"
  let ?c = "fresh_page\<lparr>snd_feed_name := js '' Senior Living Magazine '',
                   snd_feed_url := js ''https://example.com/rss'',
                   snd_feed_category := js ''Lifestyle''\<rparr>"
  have a: "trim (snd_feed_name ?a) = [] \<or> trim (snd_feed_url ?a) = []"
    by (simp add: trim_examples)
  have b: "trim (snd_feed_name ?b) \<noteq> [] \<and> trim (snd_feed_url ?b) \<noteq> [] \<and> \<not> False"
    by (simp add: trim_examples)
  have c: "trim (snd_feed_name ?c) \<noteq> [] \<and> trim (snd_feed_url ?c) \<noteq> [] \<and> True"
    by (simp add: trim_examples)
  show ?thesis
    using handleAddFeed_validates [of ?a True "at_ms 1700000000000"]
      handleAddFeed_validates [of ?b False "at_ms 1700000000000"]
      handleAddFeed_validates [of ?c True "at_ms 1700000000000"] a b c
    by (auto simp: trim_examples)
qed

subsection \<open>Adding a feed\<close>

text \<open>
  Claim C4, as the code has it. For every \<open>(name, url, category)\<close> and every prior state
  of the registry, \<^verbatim>\<open>addCustomFeed\<close> appends to the collection, persists and returns
  an entry whose name and url are the arguments, whose category is the argument, or
  \<^verbatim>\<open>General\<close> when the argument is empty or absent, whose \<open>enabled\<close> is true, whose
  \<open>dateAdded\<close> renders a clock reading not earlier than the time of the call, and whose
  id is the \<^verbatim>\<open>Date.now()\<close> reading of the call: it differs from every existing id
  whenever no existing entry has that reading as its id.
\<close>

theorem addCustomFeed_creates:
  "addCustomFeed d clk st = (feed, st') \<Longrightarrow>
     customFeeds st' = customFeeds st @ [feed]
     \<and> localStorage st' = setItem (localStorage st) (js ''snd_customFeeds'')
          (JSON_stringify (feeds_json (customFeeds st @ [feed])))
     \<and> name feed = feedData.name d
     \<and> url feed = feedData.url d
     \<and> (\<forall>c. feedData.category d = Some c \<and> c \<noteq> [] \<longrightarrow> category feed = c)
     \<and> (feedData.category d = None \<or> feedData.category d = Some [] \<longrightarrow>
          category feed = js ''General'')
     \<and> enabled feed
     \<and> dateAdded feed = toISOString (new_Date clk) \<and> invoked clk \<le> new_Date clk
     \<and> id' feed = Date_now clk
     \<and> (Date_now clk \<notin> id' ` set (customFeeds st) \<longrightarrow> id' feed \<notin> id' ` set (customFeeds st))"
  by (auto simp: addCustomFeed_def Let_def new_Date_def Date_now_def)

text \<open>
  The theorem on the scenario's feed added to a freshly loaded page, and on a second feed
  with an empty category added one millisecond later.
\<close>

theorem addCustomFeed_creates_witness:
  "customFeeds (snd (addCustomFeed magazine (at_ms 1700000000000) fresh_page)) =
     [\<lparr>id' = 1700000000000, name = js ''Senior Living Magazine'',
       url = js ''https://example.com/rss'', category = js ''Lifestyle'',
       dateAdded = js ''2023-11-14T22:13:20.000Z'', enabled = True\<rparr>]
   \<and> category (fst (addCustomFeed (magazine\<lparr>feedData.category := Some []\<rparr>)
        (at_ms 1700000000001) (snd (addCustomFeed magazine (at_ms 1700000000000) fresh_page))))
       = js ''General''
   \<and> id' (fst (addCustomFeed (magazine\<lparr>feedData.category := Some []\<rparr>)
        (at_ms 1700000000001) (snd (addCustomFeed magazine (at_ms 1700000000000) fresh_page))))
       \<notin> id' ` set (customFeeds (snd (addCustomFeed magazine (at_ms 1700000000000) fresh_page)))"
proof -
  let ?st = "snd (addCustomFeed magazine (at_ms 1700000000000) fresh_page)"
  let ?d = "magazine\<lparr>feedData.category := Some []\<rparr>"
  have first: "addCustomFeed magazine (at_ms 1700000000000) fresh_page =
      (fst (addCustomFeed magazine (at_ms 1700000000000) fresh_page), ?st)"
    by simp
  have second: "addCustomFeed ?d (at_ms 1700000000001) ?st =
      (fst (addCustomFeed ?d (at_ms 1700000000001) ?st),
       snd (addCustomFeed ?d (at_ms 1700000000001) ?st))"
    by simp
  have blank: "feedData.category ?d = None \<or> feedData.category ?d = Some []"
    by simp
  have unused: "Date_now (at_ms 1700000000001) \<notin> id' ` set (customFeeds ?st)"
    by simp
  show ?thesis
    using addCustomFeed_creates [OF first] addCustomFeed_creates [OF second] blank unused
    by (simp add: magazine_entry toISOString_2023)
qed

text \<open>
  Claim C4 as it is written fails in its last part: an add that reads the same millisecond
  as the add that created an existing entry returns an entry with that entry's id.
\<close>

theorem add_id_collides_counterexample:
  "id' (fst (addCustomFeed magazine (at_ms 1700000000000)
        (snd (addCustomFeed magazine (at_ms 1700000000000) fresh_page))))
     \<in> id' ` set (customFeeds (snd (addCustomFeed magazine (at_ms 1700000000000) fresh_page)))"
  by simp

subsection \<open>The Deletion Registry\<close>

text \<open>
  Claim C5. For every URL and every state of the Deletion Registry: after
  \<^verbatim>\<open>deleteArticle(url)\<close> the URL is reported deleted; after \<^verbatim>\<open>restoreArticle(url)\<close>
  it is not; and from a state that does not contain the URL, deleting it twice leaves it
  in the collection exactly once, the collection being one longer than before.
\<close>

theorem deletion_registry_laws:
  "isArticleDeleted articleUrl (deleteArticle articleUrl st)
   \<and> \<not> isArticleDeleted articleUrl (restoreArticle articleUrl st)
   \<and> (articleUrl \<notin> set (deletedArticles st) \<longrightarrow>
        count_list (deletedArticles (deleteArticle articleUrl (deleteArticle articleUrl st)))
          articleUrl = 1
        \<and> length (deletedArticles (deleteArticle articleUrl (deleteArticle articleUrl st)))
            = length (deletedArticles st) + 1)"
  by (simp add: isArticleDeleted_def deleteArticle_def restoreArticle_def)

text \<open>
  The theorem on the article \<^verbatim>\<open>https://news.example.com/a1\<close>, deleted twice on a
  freshly loaded page, and restored after a deletion.
\<close>

theorem deletion_registry_laws_witness:
  "isArticleDeleted (js ''https://news.example.com/a1'')
     (deleteArticle (js ''https://news.example.com/a1'') fresh_page)
   \<and> \<not> isArticleDeleted (js ''https://news.example.com/a1'')
     (restoreArticle (js ''https://news.example.com/a1'')
        (deleteArticle (js ''https://news.example.com/a1'') fresh_page))
   \<and> deletedArticles (deleteArticle (js ''https://news.example.com/a1'')
        (deleteArticle (js ''https://news.example.com/a1'') fresh_page))
       = [js ''https://news.example.com/a1'']"
proof -
  let ?u = "js ''https://news.example.com/a1''"
  have empty: "deletedArticles fresh_page = []"
    by (simp add: fresh_page_def SeniorNewsCustomizer_def init_def setupUI_def
        addControlButtons_def addModals_def)
  then have absent: "?u \<notin> set (deletedArticles fresh_page)"
    by simp
  have twice: "deletedArticles (deleteArticle ?u (deleteArticle ?u fresh_page)) = [?u]"
    using empty by (simp add: deleteArticle_def del: js_Cons)
  show ?thesis
    using deletion_registry_laws [of ?u fresh_page]
      deletion_registry_laws [of ?u "deleteArticle ?u fresh_page"] absent twice
    by (simp del: js_Cons)
qed

subsection \<open>Toggle and remove\<close>

text \<open>
  Claim C6. For every state of the Feed Registry and every integer id, two calls of
  \<^verbatim>\<open>toggleCustomFeed(id)\<close> in succession give back the collection as it was: every
  entry has all its fields, \<open>enabled\<close> among them, as before the first call.
\<close>

theorem toggle_twice:
  "customFeeds (toggleCustomFeed feedId (toggleCustomFeed feedId st)) = customFeeds st"
  by (simp add: customFeeds_toggle flip_found_twice)

text \<open>
  Claim C7. For every state of the Feed Registry and every integer id, removing the id
  twice gives the same state (collection, stored text and badges) as removing it once, and
  removing an id that no entry has leaves the collection as it was.
\<close>

theorem remove_idempotent:
  "removeCustomFeed feedId (removeCustomFeed feedId st) = removeCustomFeed feedId st
   \<and> (feedId \<notin> id' ` set (customFeeds st) \<longrightarrow>
        customFeeds (removeCustomFeed feedId st) = customFeeds st)"
proof
  show "removeCustomFeed feedId (removeCustomFeed feedId st) = removeCustomFeed feedId st"
    by (simp add: removeCustomFeed_def saveCustomFeeds_def updateStats_def setItem_def
        split: option.splits)
  show "feedId \<notin> id' ` set (customFeeds st) \<longrightarrow>
        customFeeds (removeCustomFeed feedId st) = customFeeds st"
    by (auto simp: filter_id_conv)
qed

text \<open>
  The theorem on a page with one feed of id 1700000000000: removing the absent id 5 keeps
  the entry, removing its own id twice leaves the empty collection.
\<close>

theorem remove_idempotent_witness:
  "customFeeds (removeCustomFeed 5 (snd (addCustomFeed magazine (at_ms 1700000000000) fresh_page)))
     = [fst (addCustomFeed magazine (at_ms 1700000000000) fresh_page)]
   \<and> customFeeds (removeCustomFeed 1700000000000 (removeCustomFeed 1700000000000
        (snd (addCustomFeed magazine (at_ms 1700000000000) fresh_page)))) = []"
proof -
  let ?st = "snd (addCustomFeed magazine (at_ms 1700000000000) fresh_page)"
  have absent: "5 \<notin> id' ` set (customFeeds ?st)"
    by simp
  have once: "customFeeds (removeCustomFeed 1700000000000 ?st) = []"
    by simp
  show ?thesis
    using remove_idempotent [of 5 ?st] remove_idempotent [of 1700000000000 ?st] absent once
    by simp
qed

subsection \<open>Export\<close>

text \<open>
  Claim C8, as the code has it. The export serializes every custom feed of the registry,
  enabled or not, as one line per feed, holding its URL and, as a comment, its name and
  category; these lines follow the comment line \<^verbatim>\<open># Custom feeds added by user\<close>.
  The listing goes to the clipboard, or into a notice when the write is rejected (where the
  platform has no clipboard object the call ends in a TypeError). No outcome changes the
  collections or the stored texts. On an empty registry the only effect is the notice
  \<^verbatim>\<open>No custom feeds to export.\<close>
\<close>

theorem export_listing:
  "(customFeeds st = [] \<longrightarrow>
      exportCustomFeedsForYAML access st = Inr (alert (js ''No custom feeds to export.'') st))
   \<and> (customFeeds st \<noteq> [] \<longrightarrow>
      (\<exists>st'. exportCustomFeedsForYAML Resolves st = Inr st'
          \<and> clipboard st' = Some (yamlContent (customFeeds st)))
      \<and> (\<exists>st'. exportCustomFeedsForYAML Rejects st = Inr st'
          \<and> alerts st' = alerts st @
               [js ''Custom feeds:'' @ [0x0A, 0x0A] @ yamlContent (customFeeds st)])
      \<and> exportCustomFeedsForYAML Undefined st = Inl TypeError)
   \<and> yamlContent (customFeeds st) = join (yamlLines (customFeeds st)) [0x0A]
   \<and> length (yamlLines (customFeeds st)) = length (customFeeds st) + 1
   \<and> yamlLines (customFeeds st) ! 0 = js ''# Custom feeds added by user''
   \<and> (\<forall>i < length (customFeeds st). yamlLines (customFeeds st) ! (i + 1) =
         js ''  - '' @ url (customFeeds st ! i) @ js ''  # '' @ name (customFeeds st ! i) @
         js '' ('' @ category (customFeeds st ! i) @ js '')'')
   \<and> (\<forall>st'. exportCustomFeedsForYAML access st = Inr st' \<longrightarrow>
         localStorage st' = localStorage st \<and> customFeeds st' = customFeeds st
         \<and> deletedArticles st' = deletedArticles st)"
proof (intro conjI impI allI)
  assume "customFeeds st = []"
  then show "exportCustomFeedsForYAML access st = Inr (alert (js ''No custom feeds to export.'') st)"
    by (simp add: exportCustomFeedsForYAML_def)
next
  assume "customFeeds st \<noteq> []"
  then show "\<exists>st'. exportCustomFeedsForYAML Resolves st = Inr st'
          \<and> clipboard st' = Some (yamlContent (customFeeds st))"
    and "\<exists>st'. exportCustomFeedsForYAML Rejects st = Inr st'
          \<and> alerts st' = alerts st @
               [js ''Custom feeds:'' @ [0x0A, 0x0A] @ yamlContent (customFeeds st)]"
    and "exportCustomFeedsForYAML Undefined st = Inl TypeError"
    by (simp_all add: exportCustomFeedsForYAML_def Let_def)
next
  show "yamlContent (customFeeds st) = join (yamlLines (customFeeds st)) [0x0A]"
    by (simp add: yamlContent_def)
  show "length (yamlLines (customFeeds st)) = length (customFeeds st) + 1"
    by (rule length_yamlLines)
  show "yamlLines (customFeeds st) ! 0 = js ''# Custom feeds added by user''"
    by (simp add: yamlLines_def)
next
  fix i assume "i < length (customFeeds st)"
  then show "yamlLines (customFeeds st) ! (i + 1) =
         js ''  - '' @ url (customFeeds st ! i) @ js ''  # '' @ name (customFeeds st ! i) @
         js '' ('' @ category (customFeeds st ! i) @ js '')''"
    by (simp add: nth_yamlLines yaml_line_def)
next
  fix st' assume "exportCustomFeedsForYAML access st = Inr st'"
  then show "localStorage st' = localStorage st" and "customFeeds st' = customFeeds st"
    and "deletedArticles st' = deletedArticles st"
    by (auto simp: exportCustomFeedsForYAML_def Let_def
        split: if_splits clipboard_access.splits)
qed

text \<open>
  The theorem on a freshly loaded page, whose registry is empty, and on the registry that
  holds the scenario's feed: its listing is the comment line and one line for the feed.
\<close>

theorem export_listing_witness:
  "exportCustomFeedsForYAML Resolves fresh_page
     = Inr (alert (js ''No custom feeds to export.'') fresh_page)
   \<and> yamlLines (customFeeds (snd (addCustomFeed magazine (at_ms 1700000000000) fresh_page)))
     = [js ''# Custom feeds added by user'',
        js ''  - https://example.com/rss  # Senior Living Magazine (Lifestyle)'']
   \<and> localStorage (projr (exportCustomFeedsForYAML Rejects
          (snd (addCustomFeed magazine (at_ms 1700000000000) fresh_page))))
     = localStorage (snd (addCustomFeed magazine (at_ms 1700000000000) fresh_page))"
proof -
  let ?st = "snd (addCustomFeed magazine (at_ms 1700000000000) fresh_page)"
  have none: "customFeeds fresh_page = []"
    by simp
  have one: "0 < length (customFeeds ?st)"
    by simp
  have some: "customFeeds ?st \<noteq> []"
    by simp
  have lines: "yamlLines (customFeeds ?st)
     = [js ''# Custom feeds added by user'',
        js ''  - https://example.com/rss  # Senior Living Magazine (Lifestyle)'']"
    by (simp add: yamlLines_def yaml_line_def magazine_entry js_Cons)
  have ran: "exportCustomFeedsForYAML Rejects ?st
     = Inr (projr (exportCustomFeedsForYAML Rejects ?st))"
    by (simp add: exportCustomFeedsForYAML_def Let_def)
  show ?thesis
    using export_listing [of fresh_page Resolves] export_listing [of ?st Rejects]
      none one some lines ran
    by simp
qed

text \<open>
  Claim C8 as it is written fails in its example: for the registry that holds exactly the
  feed \<^verbatim>\<open>Senior Living Magazine\<close>, the exported listing is not a single line but two,
  the comment line first.
\<close>

theorem export_two_lines_counterexample:
  "yamlContent (customFeeds (snd (addCustomFeed magazine (at_ms 1700000000000) fresh_page)))
     = js ''# Custom feeds added by user'' @ [0x0A] @
       js ''  - https://example.com/rss  # Senior Living Magazine (Lifestyle)''
   \<and> length (yamlLines (customFeeds (snd (addCustomFeed magazine (at_ms 1700000000000) fresh_page)))) = 2
   \<and> map_sum id clipboard (exportCustomFeedsForYAML Resolves
        (snd (addCustomFeed magazine (at_ms 1700000000000) fresh_page)))
     = Inr (Some (js ''# Custom feeds added by user'' @ [0x0A] @
       js ''  - https://example.com/rss  # Senior Living Magazine (Lifestyle)''))"
  by (simp add: exportCustomFeedsForYAML_def Let_def yamlContent_def yamlLines_def yaml_line_def
      magazine_entry js_Cons)

subsection \<open>Count badges\<close>

text \<open>
  The badge \<^verbatim>\<open>snd-custom-count\<close> is kept equal to the size of the collection by every
  operation of the Feed Registry.
\<close>

lemma custom_count_refreshed:
  "snd_custom_count st = Some (length (customFeeds st)) \<Longrightarrow>
     snd_custom_count (apply_op st op) = Some (length (customFeeds (apply_op st op)))"
  by (cases op)
    (simp_all add: addCustomFeed_def Let_def removeCustomFeed_def toggleCustomFeed_def
      saveCustomFeeds_def updateStats_badges split: option.splits)

text \<open>
  Claim C9 does not hold of the code. No operation of the Feed Registry writes the badge
  \<^verbatim>\<open>N Custom Feeds Active\<close>: it keeps the number that \<^verbatim>\<open>addControlButtons\<close> wrote
  at page load. After one add on a freshly loaded page it still shows 0 while one entry is
  enabled (the badge \<^verbatim>\<open>snd-custom-count\<close> shows 1, the size of the collection).
\<close>

theorem stats_badge_not_refreshed:
  "snd_stats_badge (run st ops) = snd_stats_badge st
   \<and> snd_stats_badge (snd (addCustomFeed magazine (at_ms 1700000000000) fresh_page)) = Some 0
   \<and> length (filter enabled
        (customFeeds (snd (addCustomFeed magazine (at_ms 1700000000000) fresh_page)))) = 1
   \<and> snd_custom_count (snd (addCustomFeed magazine (at_ms 1700000000000) fresh_page)) = Some 1"
proof -
  have step: "snd_stats_badge (apply_op s op) = snd_stats_badge s" for s op
    by (cases op) (simp_all add: addCustomFeed_def Let_def removeCustomFeed_def
        toggleCustomFeed_def split: option.splits)
  have "snd_stats_badge (foldl apply_op s ops) = snd_stats_badge s" for s
    by (induction ops arbitrary: s) (simp_all add: step)
  then have "snd_stats_badge (run st ops) = snd_stats_badge st"
    by (simp add: run_def)
  moreover have "snd_stats_badge (snd (addCustomFeed magazine (at_ms 1700000000000) fresh_page)) = Some 0"
    by (simp add: addCustomFeed_def Let_def)
  moreover have "length (filter enabled
        (customFeeds (snd (addCustomFeed magazine (at_ms 1700000000000) fresh_page)))) = 1"
    by (simp add: magazine_entry)
  moreover have "snd_custom_count (snd (addCustomFeed magazine (at_ms 1700000000000) fresh_page)) = Some 1"
    by (simp add: addCustomFeed_def Let_def saveCustomFeeds_def updateStats_badges)
  ultimately show ?thesis by simp
qed

text \<open>
  Claim C10. When several entries have the same id, \<^verbatim>\<open>toggleCustomFeed(id)\<close> flips
  \<open>enabled\<close> on the first of them in insertion order and leaves every other entry, the
  later ones with that id among them, as it was, whereas \<^verbatim>\<open>removeCustomFeed(id)\<close>
  removes all of them.
\<close>

theorem toggle_first_remove_all:
  "(\<forall>g \<in> set pre. id' g \<noteq> feedId) \<and> id' f = feedId \<and> customFeeds st = pre @ f # post \<longrightarrow>
     customFeeds (toggleCustomFeed feedId st) = pre @ f\<lparr>enabled := \<not> enabled f\<rparr> # post
     \<and> customFeeds (removeCustomFeed feedId st) = pre @ filter (\<lambda>g. id' g \<noteq> feedId) post
     \<and> feedId \<notin> id' ` set (customFeeds (removeCustomFeed feedId st))"
  by (auto simp: customFeeds_toggle flip_found_first filter_id_conv)

text \<open>
  The theorem on two entries created in the same millisecond, which have the same id.
\<close>

theorem toggle_first_remove_all_witness:
  "customFeeds (toggleCustomFeed 1700000000000 (run fresh_page
      [Add magazine (at_ms 1700000000000), Add magazine (at_ms 1700000000000)]))
     = [(fst (addCustomFeed magazine (at_ms 1700000000000) fresh_page))\<lparr>enabled := False\<rparr>,
        fst (addCustomFeed magazine (at_ms 1700000000000) fresh_page)]
   \<and> customFeeds (removeCustomFeed 1700000000000 (run fresh_page
      [Add magazine (at_ms 1700000000000), Add magazine (at_ms 1700000000000)])) = []"
proof -
  let ?st = "run fresh_page
      [Add magazine (at_ms 1700000000000), Add magazine (at_ms 1700000000000)]"
  let ?f = "fst (addCustomFeed magazine (at_ms 1700000000000) fresh_page)"
  have shape: "customFeeds ?st = [] @ ?f # [?f]"
    by (simp add: run_def magazine_entry)
  have first: "\<forall>g \<in> set []. id' g \<noteq> (1700000000000 :: int)"
    by simp
  have same: "id' ?f = 1700000000000"
    by simp
  have on: "enabled ?f"
    by (simp add: magazine_entry)
  show ?thesis
    using toggle_first_remove_all [of "[]" 1700000000000 ?f ?st "[?f]"] shape first same on
    by simp
qed

end
